theory Spec2Isabelle
  imports Main "HOL-Library.Word"
begin

unbundle bit_operations_syntax

section \<open>Machine integers and the constants of RootResolver.h\<close>

text \<open>
  \<open>U32\<close>, \<open>I32\<close> and \<open>U64\<close> are the fixed-width integers of the runtime. A C++
  \<open>int\<close> is a 32-bit two's complement value: \<open>cint\<close> is a 32-bit word whose
  multiplication wraps and which \<open>sint\<close> reads as signed. The cast \<open>(U64) x\<close> of an
  \<open>int\<close> sign-extends, which is \<open>scast\<close>.
\<close>

type_synonym U32 = "32 word"
type_synonym I32 = "32 word"
type_synonym U64 = "64 word"
type_synonym cint = "32 word"

text \<open>
  Modelled from the spec: \<open>IR::numBytesPerPage\<close> is declared by the runtime library, not
  in RootResolver.h; the spec fixes the page at 64 KiB.
\<close>

definition numBytesPerPage :: U64 where
  "numBytesPerPage = 65536"

definition ONE_MB_PAGES :: cint where
  "ONE_MB_PAGES = 16"

definition ONE_GB_PAGES :: cint where
  "ONE_GB_PAGES = 1024 * ONE_MB_PAGES"

definition INITIAL_MEMORY_PAGES :: cint where
  "INITIAL_MEMORY_PAGES = 15 * ONE_MB_PAGES"

definition MAX_MEMORY_PAGES :: cint where
  "MAX_MEMORY_PAGES = ONE_GB_PAGES"

definition EMSCRIPTEN_MIN_TABLE_ELEMS :: cint where
  "EMSCRIPTEN_MIN_TABLE_ELEMS = 40000000"

definition EMSCRIPTEN_MAX_TABLE_ELEMS :: cint where
  "EMSCRIPTEN_MAX_TABLE_ELEMS = 60000000"

definition INITIAL_EMSCRIPTEN_PAGES :: cint where
  "INITIAL_EMSCRIPTEN_PAGES = 1024 * ONE_MB_PAGES"

definition MAX_EMSCRIPTEN_PAGES :: cint where
  "MAX_EMSCRIPTEN_PAGES = 2048 * ONE_GB_PAGES"

text \<open>The product with the page size is taken at the width of the page size, then narrowed.\<close>

definition EMSCRIPTEN_STACKTOP :: cint where
  "EMSCRIPTEN_STACKTOP = ucast (64 * numBytesPerPage)"

definition EMSCRIPTEN_STACK_MAX :: cint where
  "EMSCRIPTEN_STACK_MAX = ucast (256 * numBytesPerPage)"

text \<open>\<open>enum class ioStreamVMHandle\<close> with its integer tags.\<close>

datatype ioStreamVMHandle = StdErr | StdIn | StdOut

fun ioStreamVMHandle_value :: "ioStreamVMHandle \<Rightarrow> U32" where
  "ioStreamVMHandle_value StdErr = 1"
| "ioStreamVMHandle_value StdIn = 2"
| "ioStreamVMHandle_value StdOut = 3"

subsection \<open>The MutableGlobals block\<close>

text \<open>
  \<open>struct MutableGlobals\<close> has the fields \<open>U32 DYNAMICTOP_PTR\<close>, \<open>F64 tempDoublePtr\<close>,
  \<open>I32 _stderr\<close>, \<open>I32 _stdin\<close>, \<open>I32 _stdout\<close>, laid out in this order with every
  field at its natural alignment (the 8-byte double after 4 bytes of padding), which
  gives the offsets and the size below. \<open>MutableGlobals::address\<close> is the enum constant
  of the struct.
\<close>

definition MutableGlobals_address :: nat where
  "MutableGlobals_address = unat (63 * numBytesPerPage)"

definition offsetof_DYNAMICTOP_PTR :: nat where
  "offsetof_DYNAMICTOP_PTR = 0"

definition offsetof_tempDoublePtr :: nat where
  "offsetof_tempDoublePtr = 8"

definition offsetof_stderr :: nat where
  "offsetof_stderr = 16"

definition offsetof_stdin :: nat where
  "offsetof_stdin = 20"

definition offsetof_stdout :: nat where
  "offsetof_stdout = 24"

definition sizeof_MutableGlobals :: nat where
  "sizeof_MutableGlobals = 32"

section \<open>The parsed module\<close>

text \<open>
  The part of \<open>IR::Module\<close> that the resolver reads and rewrites: the index spaces of
  memories and tables, each with a vector of imports and a vector of definitions, and
  the size constraints inside their types.
\<close>

record SizeConstraints =
  size_min :: U64
  size_max :: U64

record MemoryType =
  mem_isShared :: bool
  mem_size :: SizeConstraints

record TableType =
  tab_isShared :: bool
  tab_size :: SizeConstraints

record 't Import =
  import_type :: 't
  import_moduleName :: string
  import_exportName :: string

record MemoryDef =
  memdef_type :: MemoryType

record TableDef =
  tabdef_type :: TableType

record Module =
  memories_imports :: "MemoryType Import list"
  memories_defs :: "MemoryDef list"
  tables_imports :: "TableType Import list"
  tables_defs :: "TableDef list"

section \<open>The runtime: compartment, objects, module instances\<close>

text \<open>
  What the code can go wrong with, as values: indexing an empty \<open>std::vector\<close> with
  \<open>[0]\<close> (undefined behaviour in C++), asking a null module instance for an export,
  following a pointer that is not in the compartment, and a reference into linear memory
  that is not inside its committed pages.
\<close>

datatype fault =
    VectorIndexOutOfRange string
  | NullModuleInstance
  | InvalidPointer
  | OutOfBoundsMemoryAccess

text \<open>
  A \<open>Runtime::Object*\<close> is a pointer to a memory or a table of the compartment (their
  index there), or to an instantiated intrinsic function or global, \<open>'x\<close> being whatever
  the intrinsic modules hold.
\<close>

datatype 'x Object =
    MemoryObject nat
  | TableObject nat
  | IntrinsicObject 'x

record Memory =
  memory_type :: MemoryType
  memory_debugName :: string
  memory_numPages :: nat
  memory_bytes :: "nat \<Rightarrow> 8 word"

record Table =
  table_type :: TableType
  table_debugName :: string

record 'x ModuleInstance =
  instance_debugName :: string
  exportMap :: "string \<rightharpoonup> 'x Object"

record 'x Compartment =
  comp_memories :: "Memory list"
  comp_tables :: "Table list"
  comp_moduleInstances :: "'x ModuleInstance list"

text \<open>
  Modelled from the spec: \<open>Runtime::createMemory\<close> and \<open>Runtime::createTable\<close> belong to
  the runtime library. They create an object of the given type in the compartment and
  return a pointer to it; a new memory has its minimum number of pages committed, all
  bytes zero.
\<close>

definition createMemory :: "'x Compartment \<Rightarrow> MemoryType \<Rightarrow> string \<Rightarrow> 'x Compartment \<times> nat" where
  "createMemory compartment type debugName =
     (compartment\<lparr>comp_memories := comp_memories compartment @
         [\<lparr>memory_type = type, memory_debugName = debugName,
           memory_numPages = unat (size_min (mem_size type)),
           memory_bytes = (\<lambda>a. 0)\<rparr>]\<rparr>,
      length (comp_memories compartment))"

definition createTable :: "'x Compartment \<Rightarrow> TableType \<Rightarrow> string \<Rightarrow> 'x Compartment \<times> nat" where
  "createTable compartment type debugName =
     (compartment\<lparr>comp_tables := comp_tables compartment @
         [\<lparr>table_type = type, table_debugName = debugName\<rparr>]\<rparr>,
      length (comp_tables compartment))"

text \<open>
  Modelled from the spec: an intrinsic module is a mapping from export names to host
  functions and globals; \<open>Intrinsics::instantiateModule\<close> instantiates it into the
  compartment under a name, with optional extra exports injected, and returns the
  instance. The four collections \<open>getIntrinsicModule_env\<close>, \<open>getIntrinsicModule_emEnv\<close>,
  \<open>getIntrinsicModule_emAsm2wasm\<close> and \<open>getIntrinsicModule_emGlobal\<close> are declared
  \<open>extern\<close> in RootResolver.h and are parameters here.
\<close>

type_synonym 'x IntrinsicsModule = "string \<rightharpoonup> 'x"

record 'x IntrinsicModules =
  getIntrinsicModule_env :: "'x IntrinsicsModule"
  getIntrinsicModule_emEnv :: "'x IntrinsicsModule"
  getIntrinsicModule_emAsm2wasm :: "'x IntrinsicsModule"
  getIntrinsicModule_emGlobal :: "'x IntrinsicsModule"

definition instantiateModule ::
  "'x Compartment \<Rightarrow> 'x IntrinsicsModule \<Rightarrow> string \<Rightarrow> (string \<rightharpoonup> 'x Object)
     \<Rightarrow> 'x Compartment \<times> 'x ModuleInstance option" where
  "instantiateModule compartment intrinsicModule debugName extraExports =
     (let inst = \<lparr>instance_debugName = debugName,
                  exportMap = (map_option IntrinsicObject \<circ> intrinsicModule) ++ extraExports\<rparr>
      in (compartment\<lparr>comp_moduleInstances := comp_moduleInstances compartment @ [inst]\<rparr>,
          Some inst))"

text \<open>
  Modelled from the spec: \<open>Runtime::getInstanceExport\<close> looks a name up in the export map
  of an instance and returns null when there is none. It dereferences the instance.
\<close>

definition getInstanceExport :: "'x ModuleInstance option \<Rightarrow> string \<Rightarrow> fault + 'x Object option" where
  "getInstanceExport moduleInstance name =
     (case moduleInstance of
        None \<Rightarrow> Inl NullModuleInstance
      | Some inst \<Rightarrow> Inr (exportMap inst name))"

text \<open>
  Modelled from the spec: \<open>Runtime::memoryRef\<close> gives a reference to \<open>numBytes\<close> bytes at
  an offset of a linear memory, which must lie in its committed pages. Through the
  reference the code stores 32-bit fields, least significant byte first.
\<close>

definition memoryRef :: "'x Compartment \<Rightarrow> nat \<Rightarrow> nat \<Rightarrow> nat \<Rightarrow> fault + nat" where
  "memoryRef compartment memory offset numBytes =
     (if length (comp_memories compartment) \<le> memory then Inl InvalidPointer
      else if memory_numPages (comp_memories compartment ! memory) * unat numBytesPerPage
                < offset + numBytes
      then Inl OutOfBoundsMemoryAccess
      else Inr offset)"

definition storeU32 :: "(nat \<Rightarrow> 8 word) \<Rightarrow> nat \<Rightarrow> U32 \<Rightarrow> (nat \<Rightarrow> 8 word)" where
  "storeU32 bytes a w =
     bytes(a := ucast w, a + 1 := ucast (drop_bit 8 w),
           a + 2 := ucast (drop_bit 16 w), a + 3 := ucast (drop_bit 24 w))"

definition loadU32 :: "(nat \<Rightarrow> 8 word) \<Rightarrow> nat \<Rightarrow> U32" where
  "loadU32 bytes a =
     ucast (bytes a) OR push_bit 8 (ucast (bytes (a + 1)))
       OR push_bit 16 (ucast (bytes (a + 2))) OR push_bit 24 (ucast (bytes (a + 3)))"

definition memory_storeU32 :: "'x Compartment \<Rightarrow> nat \<Rightarrow> nat \<Rightarrow> U32 \<Rightarrow> 'x Compartment" where
  "memory_storeU32 compartment memory a w =
     compartment\<lparr>comp_memories := (comp_memories compartment)
        [memory := (comp_memories compartment ! memory)
           \<lparr>memory_bytes := storeU32 (memory_bytes (comp_memories compartment ! memory)) a w\<rparr>]\<rparr>"

section \<open>RootResolver\<close>

text \<open>
  The members of \<open>struct RootResolver\<close>. A \<open>GCPointer<ModuleInstance>\<close> is null
  (\<open>None\<close>) or points to an instance; instances never change once made, so the pointer
  is modelled by the instance it points to.
\<close>

record 'x RootResolver =
  isEmscripten :: bool
  envModule :: "'x ModuleInstance option"
  emEnvModule :: "'x ModuleInstance option"
  emAsm2wasmModule :: "'x ModuleInstance option"
  emGlobalModule :: "'x ModuleInstance option"
  user :: string

text \<open>The constructor: the default member initialisers, the argument unused.\<close>

definition RootResolver_new :: "'x Compartment \<Rightarrow> 'x RootResolver" where
  "RootResolver_new compartment =
     \<lparr>isEmscripten = False, envModule = None, emEnvModule = None,
      emAsm2wasmModule = None, emGlobalModule = None, user = []\<rparr>"

definition setUser :: "'x RootResolver \<Rightarrow> string \<Rightarrow> 'x RootResolver" where
  "setUser r userIn = r\<lparr>user := userIn\<rparr>"

definition setUpStandardToolchain ::
  "'x IntrinsicModules \<Rightarrow> 'x RootResolver \<Rightarrow> 'x Compartment \<Rightarrow> Module
     \<Rightarrow> fault + ('x RootResolver \<times> 'x Compartment \<times> Module)" where
  "setUpStandardToolchain intr r compartment module =
     (case memories_defs module of
        [] \<Rightarrow> Inl (VectorIndexOutOfRange ''module.memories.defs'')
      | d # ds \<Rightarrow>
         (let d1 = d\<lparr>memdef_type := (memdef_type d)\<lparr>mem_size := (mem_size (memdef_type d))
                      \<lparr>size_min := scast INITIAL_MEMORY_PAGES\<rparr>\<rparr>\<rparr>;
              d2 = d1\<lparr>memdef_type := (memdef_type d1)\<lparr>mem_size := (mem_size (memdef_type d1))
                      \<lparr>size_max := scast MAX_MEMORY_PAGES\<rparr>\<rparr>\<rparr>;
              module1 = module\<lparr>memories_defs := d2 # ds\<rparr>;
              (compartment1, inst) =
                 instantiateModule compartment (getIntrinsicModule_env intr) ''env'' Map.empty
          in Inr (r\<lparr>envModule := inst\<rparr>, compartment1, module1)))"

definition setUpEmscripten ::
  "'x IntrinsicModules \<Rightarrow> 'x RootResolver \<Rightarrow> 'x Compartment \<Rightarrow> Module
     \<Rightarrow> fault + ('x RootResolver \<times> 'x Compartment \<times> Module)" where
  "setUpEmscripten intr r compartment module =
     (case memories_imports module of
        [] \<Rightarrow> Inl (VectorIndexOutOfRange ''module.memories.imports'')
      | mi # mis \<Rightarrow>
         (let mi1 = mi\<lparr>import_type := (import_type mi)\<lparr>mem_size := (mem_size (import_type mi))
                      \<lparr>size_min := scast INITIAL_EMSCRIPTEN_PAGES\<rparr>\<rparr>\<rparr>;
              mi2 = mi1\<lparr>import_type := (import_type mi1)\<lparr>mem_size := (mem_size (import_type mi1))
                      \<lparr>size_max := scast MAX_EMSCRIPTEN_PAGES\<rparr>\<rparr>\<rparr>;
              module1 = module\<lparr>memories_imports := mi2 # mis\<rparr>
          in case tables_imports module1 of
               [] \<Rightarrow> Inl (VectorIndexOutOfRange ''module.tables.imports'')
             | ti # tis \<Rightarrow>
                (let ti1 = ti\<lparr>import_type := (import_type ti)\<lparr>tab_size := (tab_size (import_type ti))
                             \<lparr>size_min := scast EMSCRIPTEN_MIN_TABLE_ELEMS\<rparr>\<rparr>\<rparr>;
                     ti2 = ti1\<lparr>import_type := (import_type ti1)\<lparr>tab_size := (tab_size (import_type ti1))
                             \<lparr>size_max := scast EMSCRIPTEN_MAX_TABLE_ELEMS\<rparr>\<rparr>\<rparr>;
                     module2 = module1\<lparr>tables_imports := ti2 # tis\<rparr>;
                     (compartment1, memory) =
                        createMemory compartment (import_type mi2) ''env.memory'';
                     (compartment2, table) =
                        createTable compartment1 (import_type ti2) ''env.table'';
                     extraEnvExports =
                        [''memory'' \<mapsto> MemoryObject memory, ''table'' \<mapsto> TableObject table];
                     (compartment3, inst1) =
                        instantiateModule compartment2 (getIntrinsicModule_emEnv intr) ''env''
                          extraEnvExports;
                     (compartment4, inst2) =
                        instantiateModule compartment3 (getIntrinsicModule_emAsm2wasm intr)
                          ''emAsm2wasm'' Map.empty;
                     (compartment5, inst3) =
                        instantiateModule compartment4 (getIntrinsicModule_emGlobal intr)
                          ''emGlobal'' Map.empty;
                     r1 = r\<lparr>emEnvModule := inst1, emAsm2wasmModule := inst2,
                            emGlobalModule := inst3\<rparr>
                 in case memoryRef compartment5 memory MutableGlobals_address
                           sizeof_MutableGlobals of
                      Inl f \<Rightarrow> Inl f
                    | Inr mutableGlobals \<Rightarrow>
                       (let compartment6 = memory_storeU32 compartment5 memory
                               (mutableGlobals + offsetof_DYNAMICTOP_PTR)
                               (ucast EMSCRIPTEN_STACK_MAX);
                            compartment7 = memory_storeU32 compartment6 memory
                               (mutableGlobals + offsetof_stderr)
                               (ioStreamVMHandle_value StdErr);
                            compartment8 = memory_storeU32 compartment7 memory
                               (mutableGlobals + offsetof_stdin)
                               (ioStreamVMHandle_value StdIn);
                            compartment9 = memory_storeU32 compartment8 memory
                               (mutableGlobals + offsetof_stdout)
                               (ioStreamVMHandle_value StdOut)
                        in Inr (r1, compartment9, module2)))))"

definition setUp ::
  "'x IntrinsicModules \<Rightarrow> 'x RootResolver \<Rightarrow> 'x Compartment \<Rightarrow> Module
     \<Rightarrow> fault + ('x RootResolver \<times> 'x Compartment \<times> Module)" where
  "setUp intr r compartment module =
     (if memories_defs module \<noteq> []
      then setUpStandardToolchain intr (r\<lparr>isEmscripten := False\<rparr>) compartment module
      else setUpEmscripten intr (r\<lparr>isEmscripten := True\<rparr>) compartment module)"

definition cleanUp :: "'x RootResolver \<Rightarrow> 'x RootResolver" where
  "cleanUp r =
     r\<lparr>envModule := None, emEnvModule := None, emAsm2wasmModule := None,
       emGlobalModule := None\<rparr>"

text \<open>
  What a call of \<open>resolve\<close> does besides returning: the export lookups it makes (with
  the instance pointer and the name it passes) and the three error messages it logs,
  \<open>Unrecognised module: {}\<close>, \<open>Resolved import {}.{} to a {}, but was expecting {}\<close> and
  \<open>Missing import {}.{} {}\<close>, with their arguments.
\<close>

datatype ('x, 'ty) event =
    GetInstanceExport "'x ModuleInstance option" string
  | UnrecognisedModule string
  | TypeMismatch string string 'ty 'ty
  | MissingImport string string 'ty

text \<open>The statement \<open>resolved = getInstanceExport(moduleInstance, exportName)\<close>.\<close>

definition resolved_getInstanceExport ::
  "'x ModuleInstance option \<Rightarrow> string \<Rightarrow> fault + ('x Object option \<times> ('x, 'ty) event list)" where
  "resolved_getInstanceExport moduleInstance exportName =
     (case getInstanceExport moduleInstance exportName of
        Inl f \<Rightarrow> Inl f
      | Inr obj \<Rightarrow> Inr (obj, [GetInstanceExport moduleInstance exportName]))"

text \<open>
  \<open>resolve\<close> takes the declared type and the caller's \<open>resolved\<close> slot, a reference
  that it reads after the dispatch whether or not it has assigned it, and returns the
  resolver, the boolean, the slot and the events. \<open>isA\<close> and \<open>getObjectType\<close> are the
  runtime's type test and type query on objects.
\<close>

definition resolve ::
  "('x Object \<Rightarrow> 'ty \<Rightarrow> bool) \<Rightarrow> ('x Object \<Rightarrow> 'ty) \<Rightarrow> 'x RootResolver
     \<Rightarrow> string \<Rightarrow> string \<Rightarrow> 'ty \<Rightarrow> 'x Object option
     \<Rightarrow> fault + ('x RootResolver \<times> bool \<times> 'x Object option \<times> ('x, 'ty) event list)" where
  "resolve isA getObjectType r moduleName exportName type resolved =
     (case (if isEmscripten r then
              (if moduleName = ''env'' then
                 resolved_getInstanceExport (emEnvModule r) exportName
               else if moduleName = ''asm2wasm'' then
                 resolved_getInstanceExport (emAsm2wasmModule r) exportName
               else if moduleName = ''global'' \<or> moduleName = ''global.Math'' then
                 resolved_getInstanceExport (emGlobalModule r) exportName
               else Inr (resolved, [UnrecognisedModule moduleName]))
            else resolved_getInstanceExport (envModule r) exportName) of
        Inl f \<Rightarrow> Inl f
      | Inr (resolved1, events) \<Rightarrow>
         (case resolved1 of
            Some obj \<Rightarrow>
              if isA obj type then Inr (r, True, resolved1, events)
              else Inr (r, False, resolved1,
                        events @ [TypeMismatch moduleName exportName (getObjectType obj) type])
          | None \<Rightarrow>
              Inr (r, False, resolved1, events @ [MissingImport moduleName exportName type])))"

section \<open>A linking session\<close>

text \<open>
  The linking engine drives one resolver for one module in one compartment: it may set
  the user, set the resolver up for the module, ask for imports one at a time and tear
  the resolver down, in any order. A call that faults ends the session. What the engine
  sees of a \<open>resolve\<close> call is its boolean, the slot and the events; \<open>setUp\<close> leaves its
  results in the compartment and the module.
\<close>

record 'x session =
  s_resolver :: "'x RootResolver"
  s_compartment :: "'x Compartment"
  s_module :: Module

datatype ('x, 'ty) call =
    SetUser string
  | SetUp
  | Resolve string string 'ty "'x Object option"
  | CleanUp

datatype ('x, 'ty) observation =
    ResolveReturned bool "'x Object option" "('x, 'ty) event list"
  | Faulted fault

fun is_SetUser :: "('x, 'ty) call \<Rightarrow> bool" where
  "is_SetUser (SetUser u) = True"
| "is_SetUser c = False"

fun invoke ::
  "('x Object \<Rightarrow> 'ty \<Rightarrow> bool) \<Rightarrow> ('x Object \<Rightarrow> 'ty) \<Rightarrow> 'x IntrinsicModules \<Rightarrow> 'x session
     \<Rightarrow> ('x, 'ty) call \<Rightarrow> fault + ('x session \<times> ('x, 'ty) observation list)" where
  "invoke isA getObjectType intr s (SetUser userIn) =
     Inr (s\<lparr>s_resolver := setUser (s_resolver s) userIn\<rparr>, [])"
| "invoke isA getObjectType intr s SetUp =
     (case setUp intr (s_resolver s) (s_compartment s) (s_module s) of
        Inl f \<Rightarrow> Inl f
      | Inr (r1, compartment1, module1) \<Rightarrow>
          Inr (\<lparr>s_resolver = r1, s_compartment = compartment1, s_module = module1\<rparr>, []))"
| "invoke isA getObjectType intr s (Resolve moduleName exportName type resolved) =
     (case resolve isA getObjectType (s_resolver s) moduleName exportName type resolved of
        Inl f \<Rightarrow> Inl f
      | Inr (r1, ret, resolved1, events) \<Rightarrow>
          Inr (s\<lparr>s_resolver := r1\<rparr>, [ResolveReturned ret resolved1 events]))"
| "invoke isA getObjectType intr s CleanUp =
     Inr (s\<lparr>s_resolver := cleanUp (s_resolver s)\<rparr>, [])"

fun run ::
  "('x Object \<Rightarrow> 'ty \<Rightarrow> bool) \<Rightarrow> ('x Object \<Rightarrow> 'ty) \<Rightarrow> 'x IntrinsicModules \<Rightarrow> 'x session
     \<Rightarrow> ('x, 'ty) call list \<Rightarrow> 'x session \<times> ('x, 'ty) observation list" where
  "run isA getObjectType intr s [] = (s, [])"
| "run isA getObjectType intr s (c # cs) =
     (case invoke isA getObjectType intr s c of
        Inl f \<Rightarrow> (s, [Faulted f])
      | Inr (s1, obs) \<Rightarrow>
          (case run isA getObjectType intr s1 cs of (s2, obs2) \<Rightarrow> (s2, obs @ obs2)))"

text \<open>A session with the user string blanked: everything about it except the user.\<close>

definition erase_user :: "'x session \<Rightarrow> 'x session" where
  "erase_user s = s\<lparr>s_resolver := (s_resolver s)\<lparr>user := []\<rparr>\<rparr>"

text \<open>The export lookups among the events of a call.\<close>

fun is_GetInstanceExport :: "('x, 'ty) event \<Rightarrow> bool" where
  "is_GetInstanceExport (GetInstanceExport moduleInstance name) = True"
| "is_GetInstanceExport e = False"

section \<open>Example inputs\<close>

text \<open>
  A small runtime to run the resolver on: an object is known by its kind, the declared
  type of an import is a kind, and an object is of a type when the kinds agree. The
  collections hold \<open>memcpy\<close> (standard), \<open>abort\<close> (legacy \<open>env\<close>), \<open>f64-to-int\<close>
  (\<open>asm2wasm\<close>) and the globals \<open>NaN\<close> and \<open>Infinity\<close> (\<open>global\<close>).
\<close>

datatype ExternKind = FunctionKind | TableKind | MemoryKind | GlobalKind

fun kind_getObjectType :: "ExternKind Object \<Rightarrow> ExternKind" where
  "kind_getObjectType (MemoryObject p) = MemoryKind"
| "kind_getObjectType (TableObject p) = TableKind"
| "kind_getObjectType (IntrinsicObject k) = k"

definition kind_isA :: "ExternKind Object \<Rightarrow> ExternKind \<Rightarrow> bool" where
  "kind_isA obj type = (kind_getObjectType obj = type)"

definition example_intrinsics :: "ExternKind IntrinsicModules" where
  "example_intrinsics =
     \<lparr>getIntrinsicModule_env = [''memcpy'' \<mapsto> FunctionKind],
      getIntrinsicModule_emEnv = [''abort'' \<mapsto> FunctionKind],
      getIntrinsicModule_emAsm2wasm = [''f64-to-int'' \<mapsto> FunctionKind],
      getIntrinsicModule_emGlobal = [''NaN'' \<mapsto> GlobalKind, ''Infinity'' \<mapsto> GlobalKind]\<rparr>"

definition example_compartment :: "ExternKind Compartment" where
  "example_compartment = \<lparr>comp_memories = [], comp_tables = [], comp_moduleInstances = []\<rparr>"

text \<open>A module that defines one memory of 1 to 2 pages and imports nothing.\<close>

definition example_standard_module :: Module where
  "example_standard_module =
     \<lparr>memories_imports = [],
      memories_defs = [\<lparr>memdef_type = \<lparr>mem_isShared = False,
                          mem_size = \<lparr>size_min = 1, size_max = 2\<rparr>\<rparr>\<rparr>],
      tables_imports = [], tables_defs = []\<rparr>"

text \<open>A module that imports \<open>env.memory\<close> and \<open>env.table\<close> and defines neither.\<close>

definition example_legacy_module :: Module where
  "example_legacy_module =
     \<lparr>memories_imports = [\<lparr>import_type = \<lparr>mem_isShared = False,
                               mem_size = \<lparr>size_min = 256, size_max = 256\<rparr>\<rparr>,
                             import_moduleName = ''env'', import_exportName = ''memory''\<rparr>],
      memories_defs = [],
      tables_imports = [\<lparr>import_type = \<lparr>tab_isShared = False,
                             tab_size = \<lparr>size_min = 10, size_max = 10\<rparr>\<rparr>,
                           import_moduleName = ''env'', import_exportName = ''table''\<rparr>],
      tables_defs = []\<rparr>"

text \<open>A module with no memory and no table at all, neither defined nor imported.\<close>

definition example_bare_module :: Module where
  "example_bare_module =
     \<lparr>memories_imports = [], memories_defs = [], tables_imports = [], tables_defs = []\<rparr>"

text \<open>A module that imports a memory and no table, and defines no memory.\<close>

definition example_tableless_module :: Module where
  "example_tableless_module =
     \<lparr>memories_imports = [\<lparr>import_type = \<lparr>mem_isShared = False,
                               mem_size = \<lparr>size_min = 256, size_max = 256\<rparr>\<rparr>,
                             import_moduleName = ''env'', import_exportName = ''memory''\<rparr>],
      memories_defs = [], tables_imports = [], tables_defs = []\<rparr>"

text \<open>The resolvers that \<open>setUp\<close> makes of a fresh resolver for the two example modules.\<close>

definition example_standard_resolver :: "ExternKind RootResolver" where
  "example_standard_resolver =
     \<lparr>isEmscripten = False,
      envModule = Some \<lparr>instance_debugName = ''env'',
                         exportMap = [''memcpy'' \<mapsto> IntrinsicObject FunctionKind]\<rparr>,
      emEnvModule = None, emAsm2wasmModule = None, emGlobalModule = None, user = []\<rparr>"

definition example_legacy_resolver :: "ExternKind RootResolver" where
  "example_legacy_resolver =
     \<lparr>isEmscripten = True,
      envModule = None,
      emEnvModule = Some \<lparr>instance_debugName = ''env'',
                           exportMap = [''abort'' \<mapsto> IntrinsicObject FunctionKind,
                                        ''memory'' \<mapsto> MemoryObject 0,
                                        ''table'' \<mapsto> TableObject 0]\<rparr>,
      emAsm2wasmModule = Some \<lparr>instance_debugName = ''emAsm2wasm'',
                                exportMap = [''f64-to-int'' \<mapsto> IntrinsicObject FunctionKind]\<rparr>,
      emGlobalModule = Some \<lparr>instance_debugName = ''emGlobal'',
                              exportMap = [''NaN'' \<mapsto> IntrinsicObject GlobalKind,
                                           ''Infinity'' \<mapsto> IntrinsicObject GlobalKind]\<rparr>,
      user = []\<rparr>"

text \<open>A session about to link the standard example module with a fresh resolver.\<close>

definition example_session :: "ExternKind session" where
  "example_session =
     \<lparr>s_resolver = RootResolver_new example_compartment,
      s_compartment = example_compartment,
      s_module = example_standard_module\<rparr>"

section \<open>Facts about the model\<close>

text \<open>
  The constants as numbers: none of the products leaves the range of \<open>int\<close>, and the
  casts to \<open>U64\<close> keep the values.
\<close>

lemma consts_eval:
  "(scast INITIAL_MEMORY_PAGES :: U64) = 240"
  "(scast MAX_MEMORY_PAGES :: U64) = 16384"
  "(scast INITIAL_EMSCRIPTEN_PAGES :: U64) = 16384"
  "(scast MAX_EMSCRIPTEN_PAGES :: U64) = 33554432"
  "(scast EMSCRIPTEN_MIN_TABLE_ELEMS :: U64) = 40000000"
  "(scast EMSCRIPTEN_MAX_TABLE_ELEMS :: U64) = 60000000"
  "EMSCRIPTEN_STACK_MAX = 16777216"
  "MutableGlobals_address = 4128768"
  "unat numBytesPerPage = 65536"
  by (simp_all add: INITIAL_MEMORY_PAGES_def MAX_MEMORY_PAGES_def INITIAL_EMSCRIPTEN_PAGES_def
      MAX_EMSCRIPTEN_PAGES_def EMSCRIPTEN_MIN_TABLE_ELEMS_def EMSCRIPTEN_MAX_TABLE_ELEMS_def
      EMSCRIPTEN_STACK_MAX_def MutableGlobals_address_def numBytesPerPage_def
      ONE_GB_PAGES_def ONE_MB_PAGES_def)

text \<open>
  The two setup paths in closed form, for a module that has the vector elements the
  path indexes.
\<close>

lemma setUpStandardToolchain_Cons:
  assumes "memories_defs m = d # ds"
  shows "setUpStandardToolchain intr r c m =
     Inr (r\<lparr>envModule := Some \<lparr>instance_debugName = ''env'',
                 exportMap = map_option IntrinsicObject \<circ> getIntrinsicModule_env intr\<rparr>\<rparr>,
          c\<lparr>comp_moduleInstances := comp_moduleInstances c @
               [\<lparr>instance_debugName = ''env'',
                 exportMap = map_option IntrinsicObject \<circ> getIntrinsicModule_env intr\<rparr>]\<rparr>,
          m\<lparr>memories_defs :=
               d\<lparr>memdef_type := (memdef_type d)\<lparr>mem_size := \<lparr>size_min = 240, size_max = 16384\<rparr>\<rparr>\<rparr> # ds\<rparr>)"
  using assms
  by (simp add: setUpStandardToolchain_def consts_eval instantiateModule_def Let_def)

lemma setUpEmscripten_Cons:
  assumes "memories_imports m = mi # mis" and "tables_imports m = ti # tis"
  shows "setUpEmscripten intr r c m =
     Inr (r\<lparr>emEnvModule := Some \<lparr>instance_debugName = ''env'',
                 exportMap = (map_option IntrinsicObject \<circ> getIntrinsicModule_emEnv intr) ++
                    [''memory'' \<mapsto> MemoryObject (length (comp_memories c)),
                     ''table'' \<mapsto> TableObject (length (comp_tables c))]\<rparr>,
            emAsm2wasmModule := Some \<lparr>instance_debugName = ''emAsm2wasm'',
                 exportMap = (map_option IntrinsicObject \<circ> getIntrinsicModule_emAsm2wasm intr)\<rparr>,
            emGlobalModule := Some \<lparr>instance_debugName = ''emGlobal'',
                 exportMap = (map_option IntrinsicObject \<circ> getIntrinsicModule_emGlobal intr)\<rparr>\<rparr>,
          c\<lparr>comp_memories := comp_memories c @
               [\<lparr>memory_type = (import_type mi)\<lparr>mem_size := \<lparr>size_min = 16384, size_max = 33554432\<rparr>\<rparr>,
                 memory_debugName = ''env.memory'',
                 memory_numPages = 16384,
                 memory_bytes = storeU32 (storeU32 (storeU32 (storeU32 (\<lambda>a. 0)
                    4128768 16777216) 4128784 1) 4128788 2) 4128792 3\<rparr>],
            comp_tables := comp_tables c @
               [\<lparr>table_type = (import_type ti)\<lparr>tab_size := \<lparr>size_min = 40000000, size_max = 60000000\<rparr>\<rparr>,
                 table_debugName = ''env.table''\<rparr>],
            comp_moduleInstances := comp_moduleInstances c @
               [\<lparr>instance_debugName = ''env'',
                 exportMap = (map_option IntrinsicObject \<circ> getIntrinsicModule_emEnv intr) ++
                    [''memory'' \<mapsto> MemoryObject (length (comp_memories c)),
                     ''table'' \<mapsto> TableObject (length (comp_tables c))]\<rparr>,
                \<lparr>instance_debugName = ''emAsm2wasm'',
                 exportMap = (map_option IntrinsicObject \<circ> getIntrinsicModule_emAsm2wasm intr)\<rparr>,
                \<lparr>instance_debugName = ''emGlobal'',
                 exportMap = (map_option IntrinsicObject \<circ> getIntrinsicModule_emGlobal intr)\<rparr>]\<rparr>,
          m\<lparr>memories_imports :=
               mi\<lparr>import_type := (import_type mi)\<lparr>mem_size := \<lparr>size_min = 16384, size_max = 33554432\<rparr>\<rparr>\<rparr> # mis,
            tables_imports :=
               ti\<lparr>import_type := (import_type ti)\<lparr>tab_size := \<lparr>size_min = 40000000, size_max = 60000000\<rparr>\<rparr>\<rparr> # tis\<rparr>)"
  using assms
  by (simp add: setUpEmscripten_def consts_eval createMemory_def createTable_def
      instantiateModule_def memoryRef_def memory_storeU32_def
      offsetof_DYNAMICTOP_PTR_def offsetof_stderr_def offsetof_stdin_def offsetof_stdout_def
      sizeof_MutableGlobals_def Let_def)

text \<open>
  Reading back the four 32-bit fields that the legacy path stores.
\<close>

lemma patched_bytes:
  "loadU32 (storeU32 (storeU32 (storeU32 (storeU32 bytes
      4128768 16777216) 4128784 1) 4128788 2) 4128792 3) 4128768 = 16777216"
  "loadU32 (storeU32 (storeU32 (storeU32 (storeU32 bytes
      4128768 16777216) 4128784 1) 4128788 2) 4128792 3) 4128784 = 1"
  "loadU32 (storeU32 (storeU32 (storeU32 (storeU32 bytes
      4128768 16777216) 4128784 1) 4128788 2) 4128792 3) 4128788 = 2"
  "loadU32 (storeU32 (storeU32 (storeU32 (storeU32 bytes
      4128768 16777216) 4128784 1) 4128788 2) 4128792 3) 4128792 = 3"
  by (simp_all add: loadU32_def storeU32_def)

text \<open>
  \<open>resolve\<close> in closed form: when the dispatch selects the instance pointer \<open>h\<close>, and
  when the legacy dispatch recognises no module name.
\<close>

lemma resolve_lookup_eq:
  assumes "(\<not> isEmscripten r \<and> h = envModule r)
         \<or> (isEmscripten r \<and> moduleName = ''env'' \<and> h = emEnvModule r)
         \<or> (isEmscripten r \<and> moduleName = ''asm2wasm'' \<and> h = emAsm2wasmModule r)
         \<or> (isEmscripten r \<and> (moduleName = ''global'' \<or> moduleName = ''global.Math'')
               \<and> h = emGlobalModule r)"
  shows "resolve isA getObjectType r moduleName exportName type resolved =
     (case h of
        None \<Rightarrow> Inl NullModuleInstance
      | Some inst \<Rightarrow>
         (case exportMap inst exportName of
            Some obj \<Rightarrow>
              if isA obj type
              then Inr (r, True, Some obj, [GetInstanceExport h exportName])
              else Inr (r, False, Some obj,
                        [GetInstanceExport h exportName,
                         TypeMismatch moduleName exportName (getObjectType obj) type])
          | None \<Rightarrow>
              Inr (r, False, None,
                   [GetInstanceExport h exportName,
                    MissingImport moduleName exportName type])))"
  using assms
  by (elim disjE conjE)
     (simp_all add: resolve_def resolved_getInstanceExport_def getInstanceExport_def
        split: option.splits)

lemma resolve_unrecognised_eq:
  assumes "isEmscripten r" and "moduleName \<noteq> ''env''" and "moduleName \<noteq> ''asm2wasm''"
    and "moduleName \<noteq> ''global''" and "moduleName \<noteq> ''global.Math''"
  shows "resolve isA getObjectType r moduleName exportName type resolved =
     (case resolved of
        Some obj \<Rightarrow>
          if isA obj type
          then Inr (r, True, resolved, [UnrecognisedModule moduleName])
          else Inr (r, False, resolved,
                    [UnrecognisedModule moduleName,
                     TypeMismatch moduleName exportName (getObjectType obj) type])
      | None \<Rightarrow>
          Inr (r, False, resolved,
               [UnrecognisedModule moduleName, MissingImport moduleName exportName type]))"
  using assms
  by (simp add: resolve_def split: option.splits)

text \<open>
  The user string is carried along by every operation and read by none.
\<close>

lemma resolve_user:
  "resolve isA getObjectType (r\<lparr>user := u\<rparr>) moduleName exportName type resolved =
     (case resolve isA getObjectType r moduleName exportName type resolved of
        Inl f \<Rightarrow> Inl f
      | Inr (r1, ret, resolved1, events) \<Rightarrow> Inr (r1\<lparr>user := u\<rparr>, ret, resolved1, events))"
proof -
  have lookup: ?thesis
    if "(\<not> isEmscripten r \<and> h = envModule r)
         \<or> (isEmscripten r \<and> moduleName = ''env'' \<and> h = emEnvModule r)
         \<or> (isEmscripten r \<and> moduleName = ''asm2wasm'' \<and> h = emAsm2wasmModule r)
         \<or> (isEmscripten r \<and> (moduleName = ''global'' \<or> moduleName = ''global.Math'')
               \<and> h = emGlobalModule r)" for h
  proof -
    from that have "(\<not> isEmscripten (r\<lparr>user := u\<rparr>) \<and> h = envModule (r\<lparr>user := u\<rparr>))
         \<or> (isEmscripten (r\<lparr>user := u\<rparr>) \<and> moduleName = ''env''
               \<and> h = emEnvModule (r\<lparr>user := u\<rparr>))
         \<or> (isEmscripten (r\<lparr>user := u\<rparr>) \<and> moduleName = ''asm2wasm''
               \<and> h = emAsm2wasmModule (r\<lparr>user := u\<rparr>))
         \<or> (isEmscripten (r\<lparr>user := u\<rparr>)
               \<and> (moduleName = ''global'' \<or> moduleName = ''global.Math'')
               \<and> h = emGlobalModule (r\<lparr>user := u\<rparr>))"
      by simp
    then show ?thesis
      by (simp add: resolve_lookup_eq [OF that]
          resolve_lookup_eq [where r = "r\<lparr>user := u\<rparr>" and h = h]
          split: option.splits)
  qed
  have other: ?thesis
    if "isEmscripten r" and "moduleName \<noteq> ''env''" and "moduleName \<noteq> ''asm2wasm''"
      and "moduleName \<noteq> ''global''" and "moduleName \<noteq> ''global.Math''"
  proof -
    from that have "isEmscripten (r\<lparr>user := u\<rparr>)" by simp
    with that show ?thesis
      by (simp add: resolve_unrecognised_eq split: option.splits)
  qed
  consider (standard) "\<not> isEmscripten r"
    | (env) "isEmscripten r" "moduleName = ''env''"
    | (asm2wasm) "isEmscripten r" "moduleName = ''asm2wasm''"
    | (global) "isEmscripten r" "moduleName = ''global'' \<or> moduleName = ''global.Math''"
    | (unrecognised) "isEmscripten r" "moduleName \<noteq> ''env''" "moduleName \<noteq> ''asm2wasm''"
        "moduleName \<noteq> ''global''" "moduleName \<noteq> ''global.Math''"
    by blast
  then show ?thesis
  proof cases
    case standard
    then show ?thesis by (intro lookup [of "envModule r"]) simp
  next
    case env
    then show ?thesis by (intro lookup [of "emEnvModule r"]) simp
  next
    case asm2wasm
    then show ?thesis by (intro lookup [of "emAsm2wasmModule r"]) simp
  next
    case global
    then show ?thesis by (intro lookup [of "emGlobalModule r"]) simp
  next
    case unrecognised
    then show ?thesis by (rule other)
  qed
qed

lemma setUpStandardToolchain_user:
  "setUpStandardToolchain intr (r\<lparr>user := u\<rparr>) c m =
     (case setUpStandardToolchain intr r c m of
        Inl f \<Rightarrow> Inl f
      | Inr (r1, c1, m1) \<Rightarrow> Inr (r1\<lparr>user := u\<rparr>, c1, m1))"
  by (cases "memories_defs m")
     (simp_all add: setUpStandardToolchain_def instantiateModule_def Let_def)

lemma setUpEmscripten_user:
  "setUpEmscripten intr (r\<lparr>user := u\<rparr>) c m =
     (case setUpEmscripten intr r c m of
        Inl f \<Rightarrow> Inl f
      | Inr (r1, c1, m1) \<Rightarrow> Inr (r1\<lparr>user := u\<rparr>, c1, m1))"
proof (cases "memories_imports m")
  case Nil
  then show ?thesis by (simp add: setUpEmscripten_def)
next
  case mi: (Cons mi mis)
  show ?thesis
  proof (cases "tables_imports m")
    case Nil
    with mi show ?thesis by (simp add: setUpEmscripten_def Let_def)
  next
    case (Cons ti tis)
    with mi show ?thesis by (simp add: setUpEmscripten_Cons)
  qed
qed

lemma setUp_user:
  "setUp intr (r\<lparr>user := u\<rparr>) c m =
     (case setUp intr r c m of
        Inl f \<Rightarrow> Inl f
      | Inr (r1, c1, m1) \<Rightarrow> Inr (r1\<lparr>user := u\<rparr>, c1, m1))"
proof -
  have sw: "r\<lparr>user := u, isEmscripten := b\<rparr> = r\<lparr>isEmscripten := b, user := u\<rparr>" for b
    by (cases r) simp
  show ?thesis
    by (simp add: setUp_def sw setUpStandardToolchain_user setUpEmscripten_user)
qed

lemma invoke_erase_user:
  "\<not> is_SetUser c \<Longrightarrow>
   invoke isA getObjectType intr (erase_user s) c =
     (case invoke isA getObjectType intr s c of
        Inl f \<Rightarrow> Inl f
      | Inr (s1, obs) \<Rightarrow> Inr (erase_user s1, obs))"
proof (cases c)
  case (SetUser u)
  assume "\<not> is_SetUser c"
  with SetUser show ?thesis by simp
next
  case SetUp
  then show ?thesis
    by (simp add: erase_user_def setUp_user split: sum.splits)
next
  case (Resolve moduleName exportName type resolved)
  then show ?thesis
    by (simp add: erase_user_def resolve_user split: sum.splits)
next
  case CleanUp
  then show ?thesis
    by (simp add: erase_user_def cleanUp_def)
qed

lemma run_erase_user:
  "snd (run isA getObjectType intr s cs)
     = snd (run isA getObjectType intr (erase_user s) (filter (\<lambda>c. \<not> is_SetUser c) cs))
   \<and> erase_user (fst (run isA getObjectType intr s cs))
     = fst (run isA getObjectType intr (erase_user s) (filter (\<lambda>c. \<not> is_SetUser c) cs))"
proof (induction cs arbitrary: s)
  case Nil
  show ?case by simp
next
  case (Cons c cs)
  show ?case
  proof (cases "is_SetUser c")
    case True
    then obtain u where c: "c = SetUser u" by (cases c) simp_all
    have e: "erase_user (s\<lparr>s_resolver := setUser (s_resolver s) u\<rparr>) = erase_user s"
      by (simp add: erase_user_def setUser_def)
    from Cons.IH [of "s\<lparr>s_resolver := setUser (s_resolver s) u\<rparr>"] c e show ?thesis
      by (simp add: split_beta)
  next
    case False
    show ?thesis
    proof (cases "invoke isA getObjectType intr s c")
      case (Inl f)
      with False show ?thesis
        by (simp add: invoke_erase_user)
    next
      case (Inr p)
      obtain s1 obs where p: "p = (s1, obs)" by (cases p)
      from Cons.IH [of s1] False Inr p show ?thesis
        by (simp add: invoke_erase_user split_beta)
    qed
  qed
qed

text \<open>
  The example resolvers are what \<open>setUp\<close> makes of a fresh resolver; a run of the
  example session.
\<close>

lemma example_standard_setUp:
  "setUp example_intrinsics (RootResolver_new example_compartment) example_compartment
      example_standard_module
   = Inr (example_standard_resolver,
          example_compartment\<lparr>comp_moduleInstances :=
             [\<lparr>instance_debugName = ''env'',
               exportMap = [''memcpy'' \<mapsto> IntrinsicObject FunctionKind]\<rparr>]\<rparr>,
          example_standard_module\<lparr>memories_defs :=
             [\<lparr>memdef_type = \<lparr>mem_isShared = False,
                 mem_size = \<lparr>size_min = 240, size_max = 16384\<rparr>\<rparr>\<rparr>]\<rparr>)"
  by (simp add: setUp_def example_standard_module_def setUpStandardToolchain_Cons
      example_intrinsics_def example_compartment_def RootResolver_new_def
      example_standard_resolver_def fun_eq_iff)

lemma example_legacy_setUp:
  "\<exists>c' m'. setUp example_intrinsics (RootResolver_new example_compartment) example_compartment
      example_legacy_module = Inr (example_legacy_resolver, c', m')"
  by (simp add: setUp_def example_legacy_module_def setUpEmscripten_Cons
      example_intrinsics_def example_compartment_def RootResolver_new_def
      example_legacy_resolver_def fun_eq_iff map_add_def)

lemma example_session_run:
  "run kind_isA kind_getObjectType example_intrinsics example_session
      [SetUser ''alice'', SetUp, Resolve ''env'' ''memcpy'' FunctionKind None, CleanUp]
   = (\<lparr>s_resolver = (cleanUp example_standard_resolver)\<lparr>user := ''alice''\<rparr>,
       s_compartment = example_compartment\<lparr>comp_moduleInstances :=
             [\<lparr>instance_debugName = ''env'',
               exportMap = [''memcpy'' \<mapsto> IntrinsicObject FunctionKind]\<rparr>]\<rparr>,
       s_module = example_standard_module\<lparr>memories_defs :=
             [\<lparr>memdef_type = \<lparr>mem_isShared = False,
                 mem_size = \<lparr>size_min = 240, size_max = 16384\<rparr>\<rparr>\<rparr>]\<rparr>\<rparr>,
      [ResolveReturned True (Some (IntrinsicObject FunctionKind))
         [GetInstanceExport (envModule example_standard_resolver) ''memcpy'']])"
proof -
  have a: "setUp example_intrinsics (setUser (RootResolver_new example_compartment) ''alice'')
      example_compartment example_standard_module
   = Inr (example_standard_resolver\<lparr>user := ''alice''\<rparr>,
          example_compartment\<lparr>comp_moduleInstances :=
             [\<lparr>instance_debugName = ''env'',
               exportMap = [''memcpy'' \<mapsto> IntrinsicObject FunctionKind]\<rparr>]\<rparr>,
          example_standard_module\<lparr>memories_defs :=
             [\<lparr>memdef_type = \<lparr>mem_isShared = False,
                 mem_size = \<lparr>size_min = 240, size_max = 16384\<rparr>\<rparr>\<rparr>]\<rparr>)"
    by (simp add: setUser_def setUp_user example_standard_setUp)
  have b: "resolve kind_isA kind_getObjectType (example_standard_resolver\<lparr>user := ''alice''\<rparr>)
      ''env'' ''memcpy'' FunctionKind None
     = Inr (example_standard_resolver\<lparr>user := ''alice''\<rparr>, True,
            Some (IntrinsicObject FunctionKind),
            [GetInstanceExport (envModule example_standard_resolver) ''memcpy''])"
    by (simp add: resolve_def resolved_getInstanceExport_def getInstanceExport_def
        example_standard_resolver_def kind_isA_def)
  show ?thesis
    by (simp add: example_session_def a b cleanUp_def)
qed

section \<open>Module names in resolve\<close>

text \<open>
  C1, as the code has it. On the legacy path, a \<open>resolve\<close> call whose module name is
  none of \<open>env\<close>, \<open>asm2wasm\<close>, \<open>global\<close>, \<open>global.Math\<close>, and whose \<open>resolved\<close> slot
  comes in empty, makes no export lookup, logs the unrecognised module and then the
  missing import, and returns false. On the standard path the module name is not
  examined: every call looks the export name up in the standard \<open>env\<close> instance, returns
  true exactly when that export exists and is of the declared type, and never logs an
  unrecognised module.
\<close>

theorem resolve_moduleName_dispatch:
  "(isEmscripten r \<and> moduleName \<noteq> ''env'' \<and> moduleName \<noteq> ''asm2wasm''
      \<and> moduleName \<noteq> ''global'' \<and> moduleName \<noteq> ''global.Math''
    \<longrightarrow> resolve isA getObjectType r moduleName exportName type None
          = Inr (r, False, None,
                 [UnrecognisedModule moduleName, MissingImport moduleName exportName type]))
   \<and> (\<not> isEmscripten r \<and> envModule r = Some inst
    \<longrightarrow> (\<exists>ret events.
           resolve isA getObjectType r moduleName exportName type resolved
             = Inr (r, ret, exportMap inst exportName,
                    GetInstanceExport (Some inst) exportName # events)
           \<and> (ret \<longleftrightarrow> (\<exists>obj. exportMap inst exportName = Some obj \<and> isA obj type))
           \<and> UnrecognisedModule moduleName \<notin> set events))"
  by (auto simp add: resolve_def resolved_getInstanceExport_def getInstanceExport_def
      split: option.splits)

theorem resolve_moduleName_dispatch_witness:
  "resolve kind_isA kind_getObjectType example_legacy_resolver ''wasi_unstable'' ''abort''
      FunctionKind None
     = Inr (example_legacy_resolver, False, None,
            [UnrecognisedModule ''wasi_unstable'',
             MissingImport ''wasi_unstable'' ''abort'' FunctionKind])
   \<and> (\<exists>ret events.
        resolve kind_isA kind_getObjectType example_standard_resolver ''asm2wasm'' ''memcpy''
           FunctionKind None
          = Inr (example_standard_resolver, ret, Some (IntrinsicObject FunctionKind),
                 GetInstanceExport (envModule example_standard_resolver) ''memcpy'' # events)
        \<and> ret \<and> UnrecognisedModule ''asm2wasm'' \<notin> set events)"
  using resolve_moduleName_dispatch [where r = example_legacy_resolver
      and moduleName = "''wasi_unstable''" and isA = kind_isA
      and getObjectType = kind_getObjectType and exportName = "''abort''"
      and type = FunctionKind]
    resolve_moduleName_dispatch [where r = example_standard_resolver
      and inst = "the (envModule example_standard_resolver)" and isA = kind_isA
      and getObjectType = kind_getObjectType and moduleName = "''asm2wasm''"
      and exportName = "''memcpy''" and type = FunctionKind and resolved = None]
  by (simp add: example_standard_resolver_def example_legacy_resolver_def kind_isA_def)

text \<open>
  The claim of C1 as stated fails. On the standard path a call with module name
  \<open>asm2wasm\<close> resolves \<open>memcpy\<close> from the standard \<open>env\<close> instance and returns true. On the
  legacy path a call with an unrecognised module name whose slot already holds an object
  of the declared type logs the unrecognised module and returns true.
\<close>

theorem resolve_moduleName_counterexample:
  "resolve kind_isA kind_getObjectType example_standard_resolver ''asm2wasm'' ''memcpy''
      FunctionKind None
     = Inr (example_standard_resolver, True, Some (IntrinsicObject FunctionKind),
            [GetInstanceExport (envModule example_standard_resolver) ''memcpy''])
   \<and> resolve kind_isA kind_getObjectType example_legacy_resolver ''wasi_unstable'' ''abort''
      FunctionKind (Some (IntrinsicObject FunctionKind))
     = Inr (example_legacy_resolver, True, Some (IntrinsicObject FunctionKind),
            [UnrecognisedModule ''wasi_unstable''])"
  by (simp add: resolve_def resolved_getInstanceExport_def getInstanceExport_def
      example_standard_resolver_def example_legacy_resolver_def kind_isA_def)

section \<open>Setup\<close>

text \<open>
  C2, at two modules without a memory definition. For the module with no imported
  memory \<open>setUp\<close> indexes the empty vector \<open>module.memories.imports\<close>; for the module
  with an imported memory and no imported table it indexes the empty vector
  \<open>module.tables.imports\<close>. Nothing guards either access and nothing reports a missing
  section.
\<close>

theorem setUp_missing_section_faults:
  "setUp example_intrinsics (RootResolver_new example_compartment) example_compartment
      example_bare_module = Inl (VectorIndexOutOfRange ''module.memories.imports'')
   \<and> setUp example_intrinsics (RootResolver_new example_compartment) example_compartment
      example_tableless_module = Inl (VectorIndexOutOfRange ''module.tables.imports'')"
  by (simp add: setUp_def setUpEmscripten_def example_bare_module_def
      example_tableless_module_def Let_def)

text \<open>
  C3: \<open>setUp\<close> sets \<open>isEmscripten\<close> to false exactly when the module has a memory
  definition and to true otherwise, and runs one path only. With a memory definition it
  always returns, having instantiated \<open>env\<close> alone, with the legacy pointers, the
  memories and the tables of the compartment untouched. Without one, when it returns it
  has created one memory, one table and the three legacy instances, with the standard
  pointer untouched; and it can only fault there, at the legacy path's indexing of an
  empty import vector.
\<close>

theorem setUp_classifies:
  "(case setUp intr r c m of
      Inr (r', c', m') \<Rightarrow>
        (isEmscripten r' \<longleftrightarrow> memories_defs m = []) \<and>
        (\<not> isEmscripten r' \<longleftrightarrow> memories_defs m \<noteq> []) \<and>
        (if memories_defs m \<noteq> []
         then envModule r' \<noteq> None \<and> emEnvModule r' = emEnvModule r
              \<and> emAsm2wasmModule r' = emAsm2wasmModule r
              \<and> emGlobalModule r' = emGlobalModule r
              \<and> comp_memories c' = comp_memories c \<and> comp_tables c' = comp_tables c
              \<and> map instance_debugName (comp_moduleInstances c')
                   = map instance_debugName (comp_moduleInstances c) @ [''env'']
              \<and> memories_imports m' = memories_imports m
              \<and> tables_imports m' = tables_imports m
         else envModule r' = envModule r \<and> emEnvModule r' \<noteq> None
              \<and> emAsm2wasmModule r' \<noteq> None \<and> emGlobalModule r' \<noteq> None
              \<and> length (comp_memories c') = Suc (length (comp_memories c))
              \<and> length (comp_tables c') = Suc (length (comp_tables c))
              \<and> map instance_debugName (comp_moduleInstances c')
                   = map instance_debugName (comp_moduleInstances c)
                       @ [''env'', ''emAsm2wasm'', ''emGlobal'']
              \<and> memories_defs m' = memories_defs m)
    | Inl f \<Rightarrow>
        memories_defs m = [] \<and>
        (if memories_imports m = [] then f = VectorIndexOutOfRange ''module.memories.imports''
         else tables_imports m = [] \<and> f = VectorIndexOutOfRange ''module.tables.imports''))"
proof (cases "memories_defs m")
  case (Cons d ds)
  then show ?thesis
    by (simp add: setUp_def setUpStandardToolchain_Cons)
next
  case Nil
  show ?thesis
  proof (cases "memories_imports m")
    case Nil': Nil
    with Nil show ?thesis
      by (simp add: setUp_def setUpEmscripten_def)
  next
    case Cons': (Cons mi mis)
    show ?thesis
    proof (cases "tables_imports m")
      case Nil'': Nil
      with Nil Cons' show ?thesis
        by (simp add: setUp_def setUpEmscripten_def Let_def)
    next
      case (Cons ti tis)
      with Nil Cons' show ?thesis
        by (simp add: setUp_def setUpEmscripten_Cons)
    qed
  qed
qed

theorem setUp_classifies_witness:
  "(case setUp example_intrinsics (RootResolver_new example_compartment) example_compartment
           example_standard_module of
      Inr (r', c', m') \<Rightarrow>
        \<not> isEmscripten r' \<and> envModule r' \<noteq> None \<and> emEnvModule r' = None
        \<and> comp_memories c' = []
    | Inl f \<Rightarrow> False)
   \<and> (case setUp example_intrinsics (RootResolver_new example_compartment) example_compartment
           example_legacy_module of
      Inr (r', c', m') \<Rightarrow>
        isEmscripten r' \<and> envModule r' = None \<and> emEnvModule r' \<noteq> None
        \<and> length (comp_memories c') = 1
    | Inl f \<Rightarrow> False)
   \<and> (case setUp example_intrinsics (RootResolver_new example_compartment) example_compartment
           example_bare_module of
      Inr (r', c', m') \<Rightarrow> False
    | Inl f \<Rightarrow> f = VectorIndexOutOfRange ''module.memories.imports'')"
proof -
  have bare: "setUp example_intrinsics (RootResolver_new example_compartment)
      example_compartment example_bare_module
        = Inl (VectorIndexOutOfRange ''module.memories.imports'')"
    by (simp add: setUp_def setUpEmscripten_def example_bare_module_def)
  have standard: "\<exists>p. setUp example_intrinsics (RootResolver_new example_compartment)
      example_compartment example_standard_module = Inr p"
    by (simp add: setUp_def example_standard_module_def setUpStandardToolchain_Cons)
  have legacy: "\<exists>p. setUp example_intrinsics (RootResolver_new example_compartment)
      example_compartment example_legacy_module = Inr p"
    by (simp add: setUp_def example_legacy_module_def setUpEmscripten_Cons)
  have A: "(case setUp example_intrinsics (RootResolver_new example_compartment)
           example_compartment example_standard_module of
      Inr (r', c', m') \<Rightarrow>
        \<not> isEmscripten r' \<and> envModule r' \<noteq> None \<and> emEnvModule r' = None
        \<and> comp_memories c' = []
    | Inl f \<Rightarrow> False)"
    using standard setUp_classifies [where intr = example_intrinsics
      and r = "RootResolver_new example_compartment" and c = example_compartment
      and m = example_standard_module]
    by (auto simp add: example_standard_module_def example_compartment_def
        RootResolver_new_def)
  have B: "(case setUp example_intrinsics (RootResolver_new example_compartment)
           example_compartment example_legacy_module of
      Inr (r', c', m') \<Rightarrow>
        isEmscripten r' \<and> envModule r' = None \<and> emEnvModule r' \<noteq> None
        \<and> length (comp_memories c') = 1
    | Inl f \<Rightarrow> False)"
    using legacy setUp_classifies [where intr = example_intrinsics
      and r = "RootResolver_new example_compartment" and c = example_compartment
      and m = example_legacy_module]
    by (auto simp add: example_legacy_module_def example_compartment_def
        RootResolver_new_def)
  have C: "(case setUp example_intrinsics (RootResolver_new example_compartment)
           example_compartment example_bare_module of
      Inr (r', c', m') \<Rightarrow> False
    | Inl f \<Rightarrow> f = VectorIndexOutOfRange ''module.memories.imports'')"
    by (simp add: bare)
  from A B C show ?thesis by blast
qed

text \<open>
  C4: for every module with a memory definition, \<open>setUp\<close> returns on the standard path
  and the first memory definition then has minimum 15 * 16 = 240 pages and maximum
  1024 * 16 = 16384 pages, whatever the module declared.
\<close>

theorem setUp_standard_memory_limits:
  assumes "memories_defs m \<noteq> []"
  shows "\<exists>r' c' m'. setUp intr r c m = Inr (r', c', m') \<and> \<not> isEmscripten r'
           \<and> memories_defs m' \<noteq> []
           \<and> size_min (mem_size (memdef_type (memories_defs m' ! 0))) = 15 * 16
           \<and> size_max (mem_size (memdef_type (memories_defs m' ! 0))) = 1024 * 16
           \<and> size_min (mem_size (memdef_type (memories_defs m' ! 0))) = 240
           \<and> size_max (mem_size (memdef_type (memories_defs m' ! 0))) = 16384"
proof -
  from assms obtain d ds where "memories_defs m = d # ds"
    by (cases "memories_defs m") auto
  then show ?thesis
    by (simp add: setUp_def setUpStandardToolchain_Cons)
qed

theorem setUp_standard_memory_limits_witness:
  "memories_defs example_standard_module \<noteq> [] \<and>
   (\<exists>r' c' m'. setUp example_intrinsics (RootResolver_new example_compartment)
        example_compartment example_standard_module = Inr (r', c', m')
      \<and> size_min (mem_size (memdef_type (memories_defs m' ! 0))) = 240
      \<and> size_max (mem_size (memdef_type (memories_defs m' ! 0))) = 16384)"
proof -
  have h: "memories_defs example_standard_module \<noteq> []"
    by (simp add: example_standard_module_def)
  from setUp_standard_memory_limits [OF h, of example_intrinsics
      "RootResolver_new example_compartment" example_compartment]
  show ?thesis using h by blast
qed

text \<open>
  C5: for every module without a memory definition that imports a memory and a table,
  \<open>setUp\<close> returns on the legacy path; the first imported memory then has minimum
  1024 * 16 and maximum 2048 * 1024 * 16 pages, the first imported table has minimum
  40000000 and maximum 60000000 elements, and the compartment has one new memory and one
  new table, created with exactly these rewritten types and exported as \<open>memory\<close> and
  \<open>table\<close> by the legacy \<open>env\<close> instance.
\<close>

theorem setUp_legacy_limits:
  assumes "memories_defs m = []" and "memories_imports m \<noteq> []" and "tables_imports m \<noteq> []"
  shows "\<exists>r' c' m'. setUp intr r c m = Inr (r', c', m') \<and> isEmscripten r'
           \<and> memories_imports m' \<noteq> [] \<and> tables_imports m' \<noteq> []
           \<and> size_min (mem_size (import_type (memories_imports m' ! 0))) = 1024 * 16
           \<and> size_max (mem_size (import_type (memories_imports m' ! 0))) = 2048 * 1024 * 16
           \<and> size_min (tab_size (import_type (tables_imports m' ! 0))) = 40000000
           \<and> size_max (tab_size (import_type (tables_imports m' ! 0))) = 60000000
           \<and> length (comp_memories c') = Suc (length (comp_memories c))
           \<and> take (length (comp_memories c)) (comp_memories c') = comp_memories c
           \<and> memory_type (comp_memories c' ! length (comp_memories c))
                = import_type (memories_imports m' ! 0)
           \<and> comp_tables c' = comp_tables c @
                [\<lparr>table_type = import_type (tables_imports m' ! 0), table_debugName = ''env.table''\<rparr>]
           \<and> (\<exists>inst. emEnvModule r' = Some inst
                 \<and> exportMap inst ''memory'' = Some (MemoryObject (length (comp_memories c)))
                 \<and> exportMap inst ''table'' = Some (TableObject (length (comp_tables c))))"
proof -
  from assms obtain mi mis ti tis
    where "memories_imports m = mi # mis" and "tables_imports m = ti # tis"
    by (cases "memories_imports m"; cases "tables_imports m") auto
  with assms(1) show ?thesis
    by (simp add: setUp_def setUpEmscripten_Cons)
qed

theorem setUp_legacy_limits_witness:
  "memories_defs example_legacy_module = [] \<and> memories_imports example_legacy_module \<noteq> []
   \<and> tables_imports example_legacy_module \<noteq> []
   \<and> (\<exists>r' c' m'. setUp example_intrinsics (RootResolver_new example_compartment)
          example_compartment example_legacy_module = Inr (r', c', m')
        \<and> mem_size (import_type (memories_imports m' ! 0))
             = \<lparr>size_min = 16384, size_max = 33554432\<rparr>
        \<and> tab_size (import_type (tables_imports m' ! 0))
             = \<lparr>size_min = 40000000, size_max = 60000000\<rparr>
        \<and> map memory_type (comp_memories c')
             = [\<lparr>mem_isShared = False, mem_size = \<lparr>size_min = 16384, size_max = 33554432\<rparr>\<rparr>]
        \<and> comp_tables c'
             = [\<lparr>table_type = \<lparr>tab_isShared = False,
                    tab_size = \<lparr>size_min = 40000000, size_max = 60000000\<rparr>\<rparr>,
                  table_debugName = ''env.table''\<rparr>])"
proof -
  have h: "memories_defs example_legacy_module = []"
    "memories_imports example_legacy_module \<noteq> []"
    "tables_imports example_legacy_module \<noteq> []"
    by (simp_all add: example_legacy_module_def)
  from h setUp_legacy_limits [OF h, where intr = example_intrinsics
      and r = "RootResolver_new example_compartment" and c = example_compartment]
  show ?thesis
    by (simp add: setUp_def example_legacy_module_def setUpEmscripten_Cons
        example_compartment_def)
qed

text \<open>
  C6: for every such module, after \<open>setUp\<close> the created memory \<open>env.memory\<close> holds, at
  byte offset 63 * 65536, \<open>DYNAMICTOP_PTR\<close> = 256 * 65536 (the constant
  \<open>EMSCRIPTEN_STACK_MAX\<close>), \<open>_stderr\<close> = 1, \<open>_stdin\<close> = 2 and \<open>_stdout\<close> = 3, and the
  offset plus the size of the struct is below the minimum size of the memory in bytes,
  which is what the memory has committed.
\<close>

theorem setUp_legacy_mutable_globals:
  assumes "memories_defs m = []" and "memories_imports m \<noteq> []" and "tables_imports m \<noteq> []"
  shows "\<exists>r' c' m' mem. setUp intr r c m = Inr (r', c', m')
           \<and> length (comp_memories c) < length (comp_memories c')
           \<and> mem = comp_memories c' ! length (comp_memories c)
           \<and> memory_debugName mem = ''env.memory''
           \<and> MutableGlobals_address = 63 * 65536
           \<and> loadU32 (memory_bytes mem) (MutableGlobals_address + offsetof_DYNAMICTOP_PTR)
                = 256 * 65536
           \<and> EMSCRIPTEN_STACK_MAX = 256 * 65536
           \<and> loadU32 (memory_bytes mem) (MutableGlobals_address + offsetof_stderr) = 1
           \<and> loadU32 (memory_bytes mem) (MutableGlobals_address + offsetof_stdin) = 2
           \<and> loadU32 (memory_bytes mem) (MutableGlobals_address + offsetof_stdout) = 3
           \<and> MutableGlobals_address + sizeof_MutableGlobals
                < unat (size_min (mem_size (memory_type mem))) * unat numBytesPerPage
           \<and> MutableGlobals_address + sizeof_MutableGlobals
                < memory_numPages mem * unat numBytesPerPage"
proof -
  from assms obtain mi mis ti tis
    where "memories_imports m = mi # mis" and "tables_imports m = ti # tis"
    by (cases "memories_imports m"; cases "tables_imports m") auto
  with assms(1) show ?thesis
    by (simp add: setUp_def setUpEmscripten_Cons patched_bytes consts_eval
        offsetof_DYNAMICTOP_PTR_def offsetof_stderr_def offsetof_stdin_def offsetof_stdout_def
        sizeof_MutableGlobals_def)
qed

theorem setUp_legacy_mutable_globals_witness:
  "memories_defs example_legacy_module = [] \<and> memories_imports example_legacy_module \<noteq> []
   \<and> tables_imports example_legacy_module \<noteq> []
   \<and> (\<exists>r' c' m'. setUp example_intrinsics (RootResolver_new example_compartment)
          example_compartment example_legacy_module = Inr (r', c', m')
        \<and> loadU32 (memory_bytes (comp_memories c' ! 0)) 4128768 = 16777216
        \<and> loadU32 (memory_bytes (comp_memories c' ! 0)) 4128784 = 1
        \<and> loadU32 (memory_bytes (comp_memories c' ! 0)) 4128788 = 2
        \<and> loadU32 (memory_bytes (comp_memories c' ! 0)) 4128792 = 3
        \<and> memory_numPages (comp_memories c' ! 0) * 65536 = 1073741824)"
proof -
  have h: "memories_defs example_legacy_module = []"
    "memories_imports example_legacy_module \<noteq> []"
    "tables_imports example_legacy_module \<noteq> []"
    by (simp_all add: example_legacy_module_def)
  from h setUp_legacy_mutable_globals [OF h, where intr = example_intrinsics
      and r = "RootResolver_new example_compartment" and c = example_compartment]
  show ?thesis
    by (simp add: setUp_def example_legacy_module_def setUpEmscripten_Cons
        example_compartment_def patched_bytes consts_eval offsetof_DYNAMICTOP_PTR_def
        offsetof_stderr_def offsetof_stdin_def offsetof_stdout_def sizeof_MutableGlobals_def)
qed

section \<open>The type check in resolve\<close>

text \<open>
  C7: when the module name is allowed for the active path and selects the instance
  \<open>inst\<close>, \<open>resolve\<close> makes that one lookup and returns true exactly when \<open>inst\<close> exports
  the name with an object of the declared type. When the export exists with another type
  it returns false and logs the mismatch with the module name, the export name, the
  actual and the expected type; when there is no such export it returns false and logs
  the missing import with the module name, the export name and the expected type.
\<close>

theorem resolve_type_checked:
  assumes "(\<not> isEmscripten r \<and> moduleName = ''env'' \<and> envModule r = Some inst)
         \<or> (isEmscripten r \<and> moduleName = ''env'' \<and> emEnvModule r = Some inst)
         \<or> (isEmscripten r \<and> moduleName = ''asm2wasm'' \<and> emAsm2wasmModule r = Some inst)
         \<or> (isEmscripten r \<and> (moduleName = ''global'' \<or> moduleName = ''global.Math'')
               \<and> emGlobalModule r = Some inst)"
  shows "resolve isA getObjectType r moduleName exportName type resolved =
     (case exportMap inst exportName of
        Some obj \<Rightarrow>
          if isA obj type
          then Inr (r, True, Some obj, [GetInstanceExport (Some inst) exportName])
          else Inr (r, False, Some obj,
                    [GetInstanceExport (Some inst) exportName,
                     TypeMismatch moduleName exportName (getObjectType obj) type])
      | None \<Rightarrow>
          Inr (r, False, None,
               [GetInstanceExport (Some inst) exportName,
                MissingImport moduleName exportName type]))"
  using assms
  by (elim disjE conjE)
     (simp_all add: resolve_def resolved_getInstanceExport_def getInstanceExport_def
        split: option.splits)

theorem resolve_type_checked_witness:
  "resolve kind_isA kind_getObjectType example_standard_resolver ''env'' ''memcpy''
      FunctionKind None
     = Inr (example_standard_resolver, True, Some (IntrinsicObject FunctionKind),
            [GetInstanceExport (envModule example_standard_resolver) ''memcpy''])
   \<and> resolve kind_isA kind_getObjectType example_legacy_resolver ''asm2wasm'' ''f64-rem''
      FunctionKind None
     = Inr (example_legacy_resolver, False, None,
            [GetInstanceExport (emAsm2wasmModule example_legacy_resolver) ''f64-rem'',
             MissingImport ''asm2wasm'' ''f64-rem'' FunctionKind])
   \<and> resolve kind_isA kind_getObjectType example_legacy_resolver ''global'' ''NaN''
      FunctionKind None
     = Inr (example_legacy_resolver, False, Some (IntrinsicObject GlobalKind),
            [GetInstanceExport (emGlobalModule example_legacy_resolver) ''NaN'',
             TypeMismatch ''global'' ''NaN'' GlobalKind FunctionKind])"
  using resolve_type_checked [where r = example_standard_resolver
      and moduleName = "''env''" and inst = "the (envModule example_standard_resolver)"
      and isA = kind_isA and getObjectType = kind_getObjectType
      and exportName = "''memcpy''" and type = FunctionKind and resolved = None]
    resolve_type_checked [where r = example_legacy_resolver
      and moduleName = "''asm2wasm''"
      and inst = "the (emAsm2wasmModule example_legacy_resolver)"
      and isA = kind_isA and getObjectType = kind_getObjectType
      and exportName = "''f64-rem''" and type = FunctionKind and resolved = None]
    resolve_type_checked [where r = example_legacy_resolver
      and moduleName = "''global''"
      and inst = "the (emGlobalModule example_legacy_resolver)"
      and isA = kind_isA and getObjectType = kind_getObjectType
      and exportName = "''NaN''" and type = FunctionKind and resolved = None]
  by (simp add: example_standard_resolver_def example_legacy_resolver_def kind_isA_def)

section \<open>Teardown\<close>

text \<open>
  C8: \<open>cleanUp\<close> empties the four module-instance pointers of any resolver, a second
  \<open>cleanUp\<close> changes nothing more, and on a resolver fresh from its constructor, before
  any \<open>setUp\<close>, it returns normally (it has no failing branch) and leaves the resolver
  as it was.
\<close>

theorem cleanUp_empties_idempotent:
  "envModule (cleanUp r) = None \<and> emEnvModule (cleanUp r) = None
   \<and> emAsm2wasmModule (cleanUp r) = None \<and> emGlobalModule (cleanUp r) = None
   \<and> cleanUp (cleanUp r) = cleanUp r
   \<and> cleanUp (RootResolver_new c) = RootResolver_new c"
  by (simp add: cleanUp_def RootResolver_new_def)

section \<open>The toolchain flag and the user string\<close>

text \<open>
  C9: \<open>cleanUp\<close> and \<open>resolve\<close> leave \<open>isEmscripten\<close> as it is, and the lookup that a
  \<open>resolve\<close> call makes is fixed by the flag (and, on the legacy path, the module name):
  the standard instance when the flag is false, the legacy instance of that name when it
  is true, none for an unrecognised name. A call faults only when the pointer so
  selected is null.
\<close>

theorem isEmscripten_read_only:
  "isEmscripten (cleanUp r) = isEmscripten r
   \<and> (case resolve isA getObjectType r moduleName exportName type resolved of
        Inr (r', ret, resolved', events) \<Rightarrow>
          isEmscripten r' = isEmscripten r
          \<and> filter is_GetInstanceExport events =
              (if isEmscripten r then
                 (if moduleName = ''env'' then [GetInstanceExport (emEnvModule r) exportName]
                  else if moduleName = ''asm2wasm'' then
                    [GetInstanceExport (emAsm2wasmModule r) exportName]
                  else if moduleName = ''global'' \<or> moduleName = ''global.Math'' then
                    [GetInstanceExport (emGlobalModule r) exportName]
                  else [])
               else [GetInstanceExport (envModule r) exportName])
      | Inl f \<Rightarrow>
          f = NullModuleInstance
          \<and> (if isEmscripten r then
                (if moduleName = ''env'' then emEnvModule r = None
                 else if moduleName = ''asm2wasm'' then emAsm2wasmModule r = None
                 else (moduleName = ''global'' \<or> moduleName = ''global.Math'')
                      \<and> emGlobalModule r = None)
              else envModule r = None))"
proof -
  have c: "isEmscripten (cleanUp r) = isEmscripten r"
    by (simp add: cleanUp_def)
  have sel: "resolved_getInstanceExport h exportName =
      (case h of None \<Rightarrow> Inl NullModuleInstance
       | Some inst \<Rightarrow> Inr (exportMap inst exportName, [GetInstanceExport h exportName :: ('a, 'b) event]))"
    for h :: "'a ModuleInstance option"
    by (simp add: resolved_getInstanceExport_def getInstanceExport_def split: option.splits)
  show ?thesis
  proof (cases "isEmscripten r")
    case False
    with c show ?thesis
      by (cases "envModule r") (simp_all add: resolve_def sel split: option.splits)
  next
    case True
    show ?thesis
    proof (cases "moduleName = ''env''")
      case env: True
      with c True show ?thesis
        by (cases "emEnvModule r") (simp_all add: resolve_def sel split: option.splits)
    next
      case nenv: False
      show ?thesis
      proof (cases "moduleName = ''asm2wasm''")
        case a: True
        with c True show ?thesis
          by (cases "emAsm2wasmModule r") (simp_all add: resolve_def sel split: option.splits)
      next
        case na: False
        show ?thesis
        proof (cases "moduleName = ''global'' \<or> moduleName = ''global.Math''")
          case g: True
          with c True nenv na show ?thesis
            by (cases "emGlobalModule r") (simp_all add: resolve_def sel split: option.splits)
        next
          case ng: False
          with c True nenv na show ?thesis
            by (simp add: resolve_def split: option.splits)
        qed
      qed
    qed
  qed
qed

theorem isEmscripten_read_only_witness:
  "isEmscripten (cleanUp example_legacy_resolver)
   \<and> (case resolve kind_isA kind_getObjectType example_legacy_resolver ''asm2wasm''
            ''f64-to-int'' FunctionKind None of
        Inr (r', ret, resolved', events) \<Rightarrow>
          isEmscripten r' \<and> ret
          \<and> filter is_GetInstanceExport events
              = [GetInstanceExport (emAsm2wasmModule example_legacy_resolver) ''f64-to-int'']
      | Inl f \<Rightarrow> False)
   \<and> resolve kind_isA kind_getObjectType (cleanUp example_legacy_resolver) ''asm2wasm''
        ''f64-to-int'' FunctionKind None = Inl NullModuleInstance"
  using isEmscripten_read_only [where r = example_legacy_resolver and isA = kind_isA
      and getObjectType = kind_getObjectType and moduleName = "''asm2wasm''"
      and exportName = "''f64-to-int''" and type = FunctionKind and resolved = None]
  by (simp add: example_legacy_resolver_def resolve_def resolved_getInstanceExport_def
      getInstanceExport_def kind_isA_def cleanUp_def)

text \<open>
  C10: two sessions that start from states equal up to the user string and make the same
  calls up to \<open>setUser\<close> calls (with whatever arguments, present or absent) show the same
  return values, resolved objects, events and faults, and end with the same compartment,
  the same module and resolvers equal up to the user string.
\<close>

theorem user_noninterference:
  assumes "filter (\<lambda>c. \<not> is_SetUser c) cs1 = filter (\<lambda>c. \<not> is_SetUser c) cs2"
      and "erase_user s1 = erase_user s2"
  shows "snd (run isA getObjectType intr s1 cs1) = snd (run isA getObjectType intr s2 cs2)
       \<and> erase_user (fst (run isA getObjectType intr s1 cs1))
           = erase_user (fst (run isA getObjectType intr s2 cs2))
       \<and> s_compartment (fst (run isA getObjectType intr s1 cs1))
           = s_compartment (fst (run isA getObjectType intr s2 cs2))
       \<and> s_module (fst (run isA getObjectType intr s1 cs1))
           = s_module (fst (run isA getObjectType intr s2 cs2))"
proof -
  have a: "snd (run isA getObjectType intr s1 cs1) = snd (run isA getObjectType intr s2 cs2)"
    using run_erase_user [of isA getObjectType intr s1 cs1]
      run_erase_user [of isA getObjectType intr s2 cs2] assms
    by simp
  have b: "erase_user (fst (run isA getObjectType intr s1 cs1))
             = erase_user (fst (run isA getObjectType intr s2 cs2))"
    using run_erase_user [of isA getObjectType intr s1 cs1]
      run_erase_user [of isA getObjectType intr s2 cs2] assms
    by simp
  have c: "s_compartment (erase_user s) = s_compartment s \<and> s_module (erase_user s) = s_module s"
    for s :: "'a session"
    by (simp add: erase_user_def)
  from b c [of "fst (run isA getObjectType intr s1 cs1)"]
    c [of "fst (run isA getObjectType intr s2 cs2)"]
  have d: "s_compartment (fst (run isA getObjectType intr s1 cs1))
             = s_compartment (fst (run isA getObjectType intr s2 cs2))
         \<and> s_module (fst (run isA getObjectType intr s1 cs1))
             = s_module (fst (run isA getObjectType intr s2 cs2))"
    by simp
  from a b d show ?thesis by simp
qed

theorem user_noninterference_witness:
  "snd (run kind_isA kind_getObjectType example_intrinsics example_session
          [SetUser ''alice'', SetUp, Resolve ''env'' ''memcpy'' FunctionKind None, CleanUp])
     = [ResolveReturned True (Some (IntrinsicObject FunctionKind))
          [GetInstanceExport (envModule example_standard_resolver) ''memcpy'']]
   \<and> snd (run kind_isA kind_getObjectType example_intrinsics example_session
          [SetUp, SetUser ''bob'', Resolve ''env'' ''memcpy'' FunctionKind None, CleanUp])
     = [ResolveReturned True (Some (IntrinsicObject FunctionKind))
          [GetInstanceExport (envModule example_standard_resolver) ''memcpy'']]
   \<and> s_compartment (fst (run kind_isA kind_getObjectType example_intrinsics example_session
          [SetUser ''alice'', SetUp, Resolve ''env'' ''memcpy'' FunctionKind None, CleanUp]))
     = s_compartment (fst (run kind_isA kind_getObjectType example_intrinsics example_session
          [SetUp, SetUser ''bob'', Resolve ''env'' ''memcpy'' FunctionKind None, CleanUp]))
   \<and> s_module (fst (run kind_isA kind_getObjectType example_intrinsics example_session
          [SetUser ''alice'', SetUp, Resolve ''env'' ''memcpy'' FunctionKind None, CleanUp]))
     = s_module (fst (run kind_isA kind_getObjectType example_intrinsics example_session
          [SetUp, SetUser ''bob'', Resolve ''env'' ''memcpy'' FunctionKind None, CleanUp]))"
proof -
  have h1: "filter (\<lambda>c. \<not> is_SetUser c)
        [SetUser ''alice'', SetUp, Resolve ''env'' ''memcpy'' FunctionKind None, CleanUp]
      = filter (\<lambda>c. \<not> is_SetUser c)
        [SetUp, SetUser ''bob'', Resolve ''env'' ''memcpy'' FunctionKind (None :: ExternKind Object option), CleanUp]"
    by simp
  have h2: "erase_user example_session = erase_user example_session"
    by simp
  from user_noninterference [OF h1 h2, where isA = kind_isA
      and getObjectType = kind_getObjectType and intr = example_intrinsics]
    example_session_run
  show ?thesis by simp
qed

end
